theory Spec2Isabelle
  imports Main "HOL-Library.Word"
begin

unbundle bit_operations_syntax

section \<open>Python values and exceptions\<close>

text \<open>
  The handler of \<^verbatim>\<open>handler.py\<close> works on JSON-like Python values: the job is a
  \<^verbatim>\<open>Dict[str, Any]\<close>. A \<^verbatim>\<open>str\<close> is modelled as a \<open>string\<close> (its UTF-8 bytes, so a
  character outside ASCII shows as characters with the top bit set), \<^verbatim>\<open>bytes\<close> as a list
  of 8-bit words, a \<^verbatim>\<open>dict\<close> as an association list in insertion order, looked up
  with \<open>map_of\<close>. A float is carried as an opaque mantissa and exponent: the handler
  only passes floats through.
\<close>

type_synonym byte = "8 word"
type_synonym bytes = "byte list"

datatype pyval =
    PNone
  | PBool bool
  | PInt int
  | PFloat int int
  | PStr string
  | PBytes bytes
  | PList "pyval list"
  | PDict "(string \<times> pyval) list"

type_synonym pydict = "(string \<times> pyval) list"

text \<open>
  Exceptions are values. Only the classes that some \<^verbatim>\<open>except\<close> clause of the handler
  tells apart are distinguished; every class here derives from \<^verbatim>\<open>Exception\<close>
  (\<^verbatim>\<open>binascii.Error\<close> is a \<^verbatim>\<open>ValueError\<close>, \<^verbatim>\<open>ModuleNotFoundError\<close> an
  \<^verbatim>\<open>ImportError\<close>, \<^verbatim>\<open>httpx.HTTPStatusError\<close> and \<^verbatim>\<open>httpx.TransportError\<close> are
  \<^verbatim>\<open>httpx.HTTPError\<close>s). \<open>exn_msg\<close> is \<^verbatim>\<open>str(e)\<close>. Signals that are not
  \<^verbatim>\<open>Exception\<close>s (\<^verbatim>\<open>KeyboardInterrupt\<close>, task cancellation) come from outside the
  handler's own control flow and are not part of this model.
\<close>

datatype exn_class =
    ValueError
  | AttributeError
  | KeyError
  | ImportError
  | HTTPError
  | PlainException
  | OtherException string

datatype exn = Exn (exn_cls: exn_class) (exn_msg: string)

text \<open>\<^verbatim>\<open>key in d\<close>, \<^verbatim>\<open>d[key]\<close> (used only after the membership test) and
  \<^verbatim>\<open>d.get(key, default)\<close>.\<close>

definition dict_in :: "string \<Rightarrow> pydict \<Rightarrow> bool" where
  "dict_in k d = (case map_of d k of None \<Rightarrow> False | Some _ \<Rightarrow> True)"

definition dict_get :: "pydict \<Rightarrow> string \<Rightarrow> pyval \<Rightarrow> pyval" where
  "dict_get d k dflt = (case map_of d k of None \<Rightarrow> dflt | Some v \<Rightarrow> v)"

text \<open>Truth value of a Python object, as \<^verbatim>\<open>if language:\<close> and \<^verbatim>\<open>bool(url)\<close> test it.\<close>

fun truthy :: "pyval \<Rightarrow> bool" where
  "truthy PNone = False"
| "truthy (PBool b) = b"
| "truthy (PInt i) = (i \<noteq> 0)"
| "truthy (PFloat m e) = (m \<noteq> 0)"
| "truthy (PStr s) = (s \<noteq> [])"
| "truthy (PBytes b) = (b \<noteq> [])"
| "truthy (PList xs) = (xs \<noteq> [])"
| "truthy (PDict d) = (d \<noteq> [])"

fun type_name :: "pyval \<Rightarrow> string" where
  "type_name PNone = ''NoneType''"
| "type_name (PBool b) = ''bool''"
| "type_name (PInt i) = ''int''"
| "type_name (PFloat m e) = ''float''"
| "type_name (PStr s) = ''str''"
| "type_name (PBytes b) = ''bytes''"
| "type_name (PList xs) = ''list''"
| "type_name (PDict d) = ''dict''"

text \<open>The apostrophe, for the messages that quote a name.\<close>

definition apos :: string where
  "apos = [CHR 0x27]"

section \<open>The decode step: \<^verbatim>\<open>base64.b64decode\<close>\<close>

text \<open>
  \<^verbatim>\<open>process_audio_input\<close> calls \<^verbatim>\<open>base64.b64decode(audio_data)\<close> with the default
  \<^verbatim>\<open>validate=False\<close>. On a \<^verbatim>\<open>str\<close> the standard library first encodes it as ASCII
  (a \<^verbatim>\<open>ValueError\<close> when a character is not ASCII) and then runs
  \<^verbatim>\<open>binascii.a2b_base64\<close> in its non-strict mode, the loop modelled below: characters
  outside the alphabet are skipped, a pad that completes a quad ends the decoding and
  whatever follows it is ignored, and a quad left open at the end of the input is
  an error (\<^verbatim>\<open>binascii.Error\<close>).
\<close>

definition b64_alphabet :: string where
  "b64_alphabet = ''ABCDEFGHIJKLMNOPQRSTUVWXYZabcdefghijklmnopqrstuvwxyz0123456789+/''"

fun index_of :: "char \<Rightarrow> string \<Rightarrow> nat option" where
  "index_of c [] = None"
| "index_of c (x # xs) =
     (if c = x then Some 0 else map_option Suc (index_of c xs))"

text \<open>The decoding table: the 6-bit value of an alphabet character, \<open>None\<close> for every
  other character (the table's entry -1).\<close>

definition table_a2b_base64 :: "char \<Rightarrow> byte option" where
  "table_a2b_base64 c = map_option of_nat (index_of c b64_alphabet)"

definition table_b2a_base64 :: "byte \<Rightarrow> char" where
  "table_b2a_base64 v = b64_alphabet ! unat v"

definition BASE64_PAD :: char where
  "BASE64_PAD = CHR ''=''"

fun digit_char :: "nat \<Rightarrow> char" where
  "digit_char n = ''0123456789'' ! (n mod 10)"

fun str_nat :: "nat \<Rightarrow> string" where
  "str_nat n = (if n < 10 then [digit_char n] else str_nat (n div 10) @ [digit_char n])"

text \<open>
  The loop of \<^verbatim>\<open>a2b_base64\<close> over the remaining input, with its variables
  \<open>quad_pos\<close>, \<open>leftchar\<close>, \<open>pads\<close> and the output written so far. Reaching the end
  of the input runs the check after the loop; the \<^verbatim>\<open>goto done\<close> of a completing pad
  returns the output without that check.
\<close>

fun a2b_loop :: "string \<Rightarrow> nat \<Rightarrow> byte \<Rightarrow> nat \<Rightarrow> bytes \<Rightarrow> string + bytes" where
  "a2b_loop [] quad_pos leftchar pads bin =
     (if quad_pos \<noteq> 0 then
        (if quad_pos = 1 then
           Inl (''Invalid base64-encoded string: number of data characters (''
                @ str_nat (length bin div 3 * 4 + 1)
                @ '') cannot be 1 more than a multiple of 4'')
         else Inl ''Incorrect padding'')
      else Inr bin)"
| "a2b_loop (ch # rest) quad_pos leftchar pads bin =
     (if ch = BASE64_PAD then
        (if quad_pos \<ge> 2 \<and> quad_pos + (pads + 1) \<ge> 4 then Inr bin
         else a2b_loop rest quad_pos leftchar (if quad_pos \<ge> 2 then pads + 1 else pads) bin)
      else
        (case table_a2b_base64 ch of
           None \<Rightarrow> a2b_loop rest quad_pos leftchar pads bin
         | Some this_ch \<Rightarrow>
             (if quad_pos = 0 then a2b_loop rest 1 this_ch 0 bin
              else if quad_pos = 1 then
                a2b_loop rest 2 (this_ch AND 0x0f) 0
                  (bin @ [push_bit 2 leftchar OR drop_bit 4 this_ch])
              else if quad_pos = 2 then
                a2b_loop rest 3 (this_ch AND 0x03) 0
                  (bin @ [push_bit 4 leftchar OR drop_bit 2 this_ch])
              else
                a2b_loop rest 0 0 0
                  (bin @ [push_bit 6 leftchar OR this_ch]))))"

definition a2b_base64 :: "string \<Rightarrow> string + bytes" where
  "a2b_base64 s = a2b_loop s 0 0 0 []"

definition is_ascii :: "char \<Rightarrow> bool" where
  "is_ascii c = (of_char c < (128 :: nat))"

definition b64decode :: "string \<Rightarrow> exn + bytes" where
  "b64decode s =
     (if \<not> list_all is_ascii s then
        Inl (Exn ValueError ''string argument should contain only ASCII characters'')
      else
        (case a2b_base64 s of
           Inl m \<Rightarrow> Inl (Exn ValueError m)
         | Inr b \<Rightarrow> Inr b))"

text \<open>
  The standard base64 encoding of a byte sequence (RFC 4648, what
  \<^verbatim>\<open>base64.b64encode\<close> produces and \<^verbatim>\<open>test_handler.py\<close> sends): three bytes give
  four alphabet characters (the four 6-bit groups of their 24 bits), a last group of
  one or two bytes is filled with zero bits and padded with \<open>=\<close>.
\<close>

definition sextet1 :: "byte \<Rightarrow> byte" where
  "sextet1 a = drop_bit 2 a"

definition sextet2 :: "byte \<Rightarrow> byte \<Rightarrow> byte" where
  "sextet2 a b = push_bit 4 (a AND 0x03) OR drop_bit 4 b"

definition sextet3 :: "byte \<Rightarrow> byte \<Rightarrow> byte" where
  "sextet3 b c = push_bit 2 (b AND 0x0f) OR drop_bit 6 c"

definition sextet4 :: "byte \<Rightarrow> byte" where
  "sextet4 c = c AND 0x3f"

fun b64encode :: "bytes \<Rightarrow> string" where
  "b64encode [] = []"
| "b64encode [a] =
     [table_b2a_base64 (sextet1 a), table_b2a_base64 (sextet2 a 0), BASE64_PAD, BASE64_PAD]"
| "b64encode [a, b] =
     [table_b2a_base64 (sextet1 a), table_b2a_base64 (sextet2 a b),
      table_b2a_base64 (sextet3 b 0), BASE64_PAD]"
| "b64encode (a # b # c # rest) =
     [table_b2a_base64 (sextet1 a), table_b2a_base64 (sextet2 a b),
      table_b2a_base64 (sextet3 b c), table_b2a_base64 (sextet4 c)]
     @ b64encode rest"

text \<open>
  A string is in standard base64 form, read from the words of the specification
  (RFC 4648 with padding): quads of alphabet characters, the last quad possibly ending
  in one or two pads, and nothing else.
\<close>

definition in_alphabet :: "char \<Rightarrow> bool" where
  "in_alphabet c = (case index_of c b64_alphabet of None \<Rightarrow> False | Some _ \<Rightarrow> True)"

fun std_base64 :: "string \<Rightarrow> bool" where
  "std_base64 [] = True"
| "std_base64 (c1 # c2 # c3 # c4 # rest) =
     (in_alphabet c1 \<and> in_alphabet c2 \<and>
      (if rest = [] then
         (in_alphabet c3 \<and> (in_alphabet c4 \<or> c4 = BASE64_PAD)) \<or>
         (c3 = BASE64_PAD \<and> c4 = BASE64_PAD)
       else in_alphabet c3 \<and> in_alphabet c4 \<and> std_base64 rest))"
| "std_base64 _ = False"

section \<open>The environment of one invocation\<close>

text \<open>
  What the handler reads from outside itself is a parameter: the process environment
  (\<^verbatim>\<open>os.getenv\<close>), the outcome of the outbound GET and POST, whether
  \<^verbatim>\<open>import whisper\<close> and \<^verbatim>\<open>import torch\<close> succeed, and what the local model answers.
  A response carries its status code, its body, the outcome of \<^verbatim>\<open>response.json()\<close>
  and the text of the \<^verbatim>\<open>HTTPStatusError\<close> that \<^verbatim>\<open>raise_for_status()\<close> builds for it.
\<close>

record response =
  status_code :: nat
  content :: bytes
  json :: "exn + pyval"
  status_error :: string

datatype http_outcome = Raises exn | Responds response

record post_request =
  post_url :: string
  post_files :: "(string \<times> string \<times> bytes \<times> string) list"
  post_data :: pydict
  post_headers :: "(string \<times> string) list"

record env =
  getenv :: "string \<Rightarrow> string option"
  http_get :: "pyval \<Rightarrow> http_outcome"
  http_post :: "post_request \<Rightarrow> http_outcome"
  whisper_importable :: bool
  cuda_is_available :: bool
  local_transcribe ::
    "string \<Rightarrow> string \<Rightarrow> bytes \<Rightarrow> pyval \<Rightarrow> pyval \<Rightarrow> pyval \<Rightarrow> exn + pydict"

text \<open>The calls that leave the handler, in the order they are made.\<close>

datatype event =
    HttpGet pyval
  | HttpPost post_request
  | ImportWhisper
  | LocalModel string string bytes

text \<open>The events that start a transcription: the POST to the backend, and the import
  and the run of the local model.\<close>

fun is_transcription_call :: "event \<Rightarrow> bool" where
  "is_transcription_call (HttpGet u) = False"
| "is_transcription_call (HttpPost q) = True"
| "is_transcription_call ImportWhisper = True"
| "is_transcription_call (LocalModel m d b) = True"

text \<open>\<^verbatim>\<open>raise_for_status()\<close>: any status outside 200..299 raises an
  \<^verbatim>\<open>httpx.HTTPStatusError\<close>.\<close>

definition raise_for_status :: "response \<Rightarrow> exn + response" where
  "raise_for_status r =
     (if 200 \<le> status_code r \<and> status_code r \<le> 299 then Inr r
      else Inl (Exn HTTPError (status_error r)))"

section \<open>The transcription dispatcher: \<^verbatim>\<open>WhisperTranscriber\<close>\<close>

record WhisperTranscriber =
  whisper_service_url :: "string option"
  whisper_api_token :: "string option"
  use_external_service :: bool

definition WhisperTranscriber_init :: "env \<Rightarrow> WhisperTranscriber" where
  "WhisperTranscriber_init e =
     \<lparr>whisper_service_url = getenv e ''WHISPER_SERVICE_URL'',
      whisper_api_token = getenv e ''WHISPER_API_TOKEN'',
      use_external_service =
        (case getenv e ''WHISPER_SERVICE_URL'' of None \<Rightarrow> False | Some u \<Rightarrow> u \<noteq> [])\<rparr>"

text \<open>The request that \<^verbatim>\<open>_call_whisper_service\<close> prepares: form fields, the audio
  as a file part, the optional bearer token.\<close>

definition whisper_request ::
    "WhisperTranscriber \<Rightarrow> bytes \<Rightarrow> pyval \<Rightarrow> pyval \<Rightarrow> pyval \<Rightarrow> post_request" where
  "whisper_request self audio_bytes language task return_timestamps =
     \<lparr>post_url =
        (case whisper_service_url self of None \<Rightarrow> ''None'' | Some u \<Rightarrow> u) @ ''/transcribe'',
      post_files = [(''audio'', ''audio.wav'', audio_bytes, ''audio/wav'')],
      post_data =
        [(''task'', task), (''return_timestamps'', return_timestamps)]
        @ (if truthy language then [(''language'', language)] else []),
      post_headers =
        (case whisper_api_token self of
           None \<Rightarrow> []
         | Some t \<Rightarrow> if t \<noteq> [] then [(''Authorization'', ''Bearer '' @ t)] else [])\<rparr>"

definition whisper_service_failure :: "exn \<Rightarrow> exn" where
  "whisper_service_failure e =
     Exn PlainException (''Failed to call Whisper service: '' @ exn_msg e)"

definition call_whisper_service ::
    "env \<Rightarrow> WhisperTranscriber \<Rightarrow> bytes \<Rightarrow> pyval \<Rightarrow> pyval \<Rightarrow> pyval
      \<Rightarrow> (exn + pyval) \<times> event list" where
  "call_whisper_service e self audio_bytes language task return_timestamps =
     (let req = whisper_request self audio_bytes language task return_timestamps;
          attempt =
            (case http_post e req of
               Raises x \<Rightarrow> Inl x
             | Responds r \<Rightarrow>
                 (case raise_for_status r of
                    Inl x \<Rightarrow> Inl x
                  | Inr r' \<Rightarrow> json r'))
      in (case attempt of
            Inl x \<Rightarrow>
              (if exn_cls x = HTTPError then Inl (whisper_service_failure x) else Inl x)
          | Inr v \<Rightarrow> Inr v,
          [HttpPost req]))"

definition whisper_not_installed :: exn where
  "whisper_not_installed =
     Exn PlainException
       (''Whisper not installed locally and no WHISPER_SERVICE_URL provided. ''
        @ ''Please install openai-whisper or configure WHISPER_SERVICE_URL.'')"

definition use_local_whisper ::
    "env \<Rightarrow> bytes \<Rightarrow> pyval \<Rightarrow> pyval \<Rightarrow> pyval \<Rightarrow> (exn + pyval) \<times> event list" where
  "use_local_whisper e audio_bytes language task return_timestamps =
     (if \<not> whisper_importable e then (Inl whisper_not_installed, [ImportWhisper])
      else
        (let model_name =
               (case getenv e ''WHISPER_MODEL'' of None \<Rightarrow> ''base'' | Some m \<Rightarrow> m);
             device = (if cuda_is_available e then ''cuda'' else ''cpu'')
         in (case local_transcribe e model_name device audio_bytes language task
                    return_timestamps of
               Inl x \<Rightarrow>
                 (if exn_cls x = ImportError then Inl whisper_not_installed else Inl x)
             | Inr result \<Rightarrow>
                 (if \<not> dict_in ''text'' result then
                    Inl (Exn KeyError (apos @ ''text'' @ apos))
                  else
                    Inr (PDict
                      [(''text'', dict_get result ''text'' PNone),
                       (''segments'', dict_get result ''segments'' (PList [])),
                       (''language'', dict_get result ''language'' language)])),
             [ImportWhisper, LocalModel model_name device audio_bytes])))"

definition transcribe_audio ::
    "env \<Rightarrow> WhisperTranscriber \<Rightarrow> bytes \<Rightarrow> pyval \<Rightarrow> pyval \<Rightarrow> pyval
      \<Rightarrow> (exn + pyval) \<times> event list" where
  "transcribe_audio e self audio_bytes language task return_timestamps =
     (if use_external_service self then
        call_whisper_service e self audio_bytes language task return_timestamps
      else use_local_whisper e audio_bytes language task return_timestamps)"

section \<open>The audio resolver\<close>

definition download_failure :: "exn \<Rightarrow> exn" where
  "download_failure e =
     Exn PlainException (''Failed to download audio from URL: '' @ exn_msg e)"

definition download_audio :: "env \<Rightarrow> pyval \<Rightarrow> (exn + bytes) \<times> event list" where
  "download_audio e url =
     (let attempt =
            (case http_get e url of
               Raises x \<Rightarrow> Inl x
             | Responds r \<Rightarrow>
                 (case raise_for_status r of
                    Inl x \<Rightarrow> Inl x
                  | Inr r' \<Rightarrow> Inr (content r')))
      in (case attempt of
            Inl x \<Rightarrow> (if exn_cls x = HTTPError then Inl (download_failure x) else Inl x)
          | Inr b \<Rightarrow> Inr b,
          [HttpGet url]))"

definition no_audio_message :: string where
  "no_audio_message =
     ''No audio input provided. Use '' @ apos @ ''audio'' @ apos @ '' (base64) or ''
     @ apos @ ''audio_url'' @ apos"

definition process_audio_input :: "env \<Rightarrow> pydict \<Rightarrow> (exn + bytes) \<times> event list" where
  "process_audio_input e job_input =
     (if dict_in ''audio'' job_input then
        (case dict_get job_input ''audio'' PNone of
           PStr s \<Rightarrow>
             (case b64decode s of
                Inl x \<Rightarrow>
                  (Inl (Exn ValueError (''Invalid base64 audio data: '' @ exn_msg x)), [])
              | Inr b \<Rightarrow> (Inr b, []))
         | PBytes b \<Rightarrow> (Inr b, [])
         | _ \<Rightarrow> (Inl (Exn ValueError ''Audio data must be base64 string or bytes''), []))
      else if dict_in ''audio_url'' job_input then
        download_audio e (dict_get job_input ''audio_url'' PNone)
      else (Inl (Exn ValueError no_audio_message), []))"

section \<open>The entry point\<close>

text \<open>The body of the handler's \<^verbatim>\<open>try\<close> block. \<^verbatim>\<open>job_input.keys()\<close> is its first
  use of the job input, an \<^verbatim>\<open>AttributeError\<close> when the value under \<^verbatim>\<open>input\<close> is not
  a mapping.\<close>

definition handler_body :: "env \<Rightarrow> pyval \<Rightarrow> (exn + pyval) \<times> event list" where
  "handler_body e job_input =
     (case job_input of
        PDict d \<Rightarrow>
          (let language = dict_get d ''language'' PNone;
               task = dict_get d ''task'' (PStr ''transcribe'');
               return_timestamps = dict_get d ''return_timestamps'' (PBool True)
           in (case process_audio_input e d of
                 (Inl x, tr) \<Rightarrow> (Inl x, tr)
               | (Inr audio_bytes, tr) \<Rightarrow>
                   (case transcribe_audio e (WhisperTranscriber_init e) audio_bytes
                           language task return_timestamps of
                      (res, tr') \<Rightarrow> (res, tr @ tr'))))
      | v \<Rightarrow>
          (Inl (Exn AttributeError
             (apos @ type_name v @ apos @ '' object has no attribute '' @ apos @ ''keys''
              @ apos)), []))"

text \<open>
  The handler itself. \<^verbatim>\<open>job.get("input", {})\<close> stands before the \<^verbatim>\<open>try\<close>: on a job
  that is not a mapping it raises out of the handler. Everything after it is inside the
  \<^verbatim>\<open>try\<close>, whose \<^verbatim>\<open>except Exception\<close> turns a failure into the error envelope;
  the two envelopes are the dict literals of the two \<^verbatim>\<open>return\<close> statements.
\<close>

definition handler :: "env \<Rightarrow> pyval \<Rightarrow> (exn + pydict) \<times> event list" where
  "handler e job =
     (case job of
        PDict j \<Rightarrow>
          (let job_input = dict_get j ''input'' (PDict [])
           in (case handler_body e job_input of
                 (Inr transcription_result, tr) \<Rightarrow>
                   (Inr [(''status'', PStr ''success''),
                         (''transcription'', transcription_result)], tr)
               | (Inl x, tr) \<Rightarrow>
                   (Inr [(''status'', PStr ''error''), (''error'', PStr (exn_msg x))], tr)))
      | v \<Rightarrow>
          (Inl (Exn AttributeError
             (apos @ type_name v @ apos @ '' object has no attribute '' @ apos @ ''get''
              @ apos)), []))"

section \<open>Text search\<close>

text \<open>Whether a message contains a text, as \<^verbatim>\<open>text in message\<close> does.\<close>

fun starts_with :: "string \<Rightarrow> string \<Rightarrow> bool" where
  "starts_with s [] = True"
| "starts_with [] (p # ps) = False"
| "starts_with (c # cs) (p # ps) = (c = p \<and> starts_with cs ps)"

fun contains_text :: "string \<Rightarrow> string \<Rightarrow> bool" where
  "contains_text [] p = (p = [])"
| "contains_text (c # cs) p = (starts_with (c # cs) p \<or> contains_text cs p)"

section \<open>Sample environments and jobs\<close>

text \<open>A backend that answers every POST with status 200 and a fixed JSON body, and a
  URL download that answers 404.\<close>

definition hello_result :: pyval where
  "hello_result =
     PDict [(''text'', PStr ''hello''), (''segments'', PList []), (''language'', PStr ''en'')]"

definition mock_backend_env :: env where
  "mock_backend_env =
     \<lparr>getenv = (\<lambda>k. if k = ''WHISPER_SERVICE_URL'' then Some ''http://whisper'' else None),
      http_get = (\<lambda>u. Responds
        \<lparr>status_code = 404, content = [], json = Inr PNone, status_error = ''Client error''\<rparr>),
      http_post = (\<lambda>r. Responds
        \<lparr>status_code = 200, content = [], json = Inr hello_result, status_error = []\<rparr>),
      whisper_importable = False,
      cuda_is_available = False,
      local_transcribe = (\<lambda>m d b l t r. Inl (Exn ImportError ''No module named whisper''))\<rparr>"

text \<open>The same with a backend that answers 500, and with no backend configured.\<close>

definition failing_backend_env :: env where
  "failing_backend_env =
     mock_backend_env\<lparr>http_post := (\<lambda>r. Responds
        \<lparr>status_code = 500, content = [], json = Inr PNone, status_error = ''Server error''\<rparr>)\<rparr>"

definition no_backend_env :: env where
  "no_backend_env = mock_backend_env\<lparr>getenv := (\<lambda>k. None)\<rparr>"

text \<open>Job inputs: the two bytes of \<^verbatim>\<open>hi\<close> as base64, the same followed by
  characters outside the alphabet, the malformed string of the specification, and a URL.\<close>

definition hi_input :: pydict where
  "hi_input = [(''audio'', PStr ''aGk=''), (''language'', PStr ''en'')]"

definition junk_input :: pydict where
  "junk_input = [(''audio'', PStr ''aGk=!!!''), (''language'', PStr ''en'')]"

definition malformed_input :: pydict where
  "malformed_input = [(''audio'', PStr ''!!!not-base64!!!'')]"

definition url_input :: pydict where
  "url_input = [(''audio_url'', PStr ''http://host/a.wav'')]"

definition both_input :: pydict where
  "both_input = [(''audio'', PStr ''aGk=''), (''audio_url'', PStr ''http://host/a.wav'')]"

definition number_input :: pydict where
  "number_input = [(''audio'', PInt 42)]"

definition language_only_input :: pydict where
  "language_only_input = [(''language'', PStr ''en'')]"

definition job_of :: "pydict \<Rightarrow> pydict" where
  "job_of job_input = [(''input'', PDict job_input)]"

definition hi_request :: post_request where
  "hi_request =
     \<lparr>post_url = ''http://whisper/transcribe'',
      post_files = [(''audio'', ''audio.wav'', [104, 105], ''audio/wav'')],
      post_data =
        [(''task'', PStr ''transcribe''), (''return_timestamps'', PBool True),
         (''language'', PStr ''en'')],
      post_headers = []\<rparr>"

section \<open>Base64: the decoder inverts the encoder\<close>

lemma mask_take:
  fixes x :: byte
  shows "x AND 0x03 = take_bit 2 x" and "x AND 0x0f = take_bit 4 x" and "x AND 0x3f = take_bit 6 x"
  by (simp_all add: take_bit_eq_mask mask_eq_exp_minus_1)

lemma lt64_iff: "(x :: byte) < 64 \<longleftrightarrow> take_bit 6 x = x"
  using mask_eq_iff_w2p[of 6 x] by (simp add: take_bit_eq_mask word_size)

lemma Suc_Suc_diff2: "2 \<le> n \<Longrightarrow> Suc (Suc (n - 2)) = n"
  by simp

lemma sextet_bounds:
  "sextet1 a < 64" "sextet2 a b < 64" "sextet3 b c < 64" "sextet4 c < 64"
  unfolding lt64_iff sextet1_def sextet2_def sextet3_def sextet4_def mask_take
  by (rule bit_word_eqI; auto simp: bit_simps dest: bit_imp_le_length)+

lemma first_byte: "push_bit 2 (sextet1 a) OR drop_bit 4 (sextet2 a b) = a"
  unfolding sextet1_def sextet2_def mask_take
  apply (rule bit_word_eqI)
  subgoal for n by (cases "2 \<le> n") (auto simp: bit_simps Suc_Suc_diff2 dest: bit_imp_le_length)
  done

lemma second_byte: "push_bit 4 (sextet2 a b AND 0x0f) OR drop_bit 2 (sextet3 b c) = b"
  unfolding sextet2_def sextet3_def mask_take
  by (rule bit_word_eqI) (auto simp: bit_simps dest: bit_imp_le_length)

lemma third_byte: "push_bit 6 (sextet3 b c AND 0x03) OR sextet4 c = c"
  unfolding sextet3_def sextet4_def mask_take
  by (rule bit_word_eqI) (auto simp: bit_simps dest: bit_imp_le_length)

lemma alphabet_table:
  "list_all (\<lambda>n. index_of (b64_alphabet ! n) b64_alphabet = Some n
      \<and> b64_alphabet ! n \<noteq> BASE64_PAD \<and> is_ascii (b64_alphabet ! n)) [0..<64]"
  by code_simp

lemma sextet_char:
  fixes v :: byte
  assumes "v < 64"
  shows "table_a2b_base64 (table_b2a_base64 v) = Some v"
    and "table_b2a_base64 v \<noteq> BASE64_PAD"
    and "is_ascii (table_b2a_base64 v)"
    and "in_alphabet (table_b2a_base64 v)"
proof -
  from assms have "unat v < 64" by (simp add: word_less_nat_alt)
  with alphabet_table have
    "index_of (b64_alphabet ! unat v) b64_alphabet = Some (unat v)
      \<and> b64_alphabet ! unat v \<noteq> BASE64_PAD \<and> is_ascii (b64_alphabet ! unat v)"
    by (simp add: list_all_iff)
  then show "table_a2b_base64 (table_b2a_base64 v) = Some v"
    and "table_b2a_base64 v \<noteq> BASE64_PAD"
    and "is_ascii (table_b2a_base64 v)"
    and "in_alphabet (table_b2a_base64 v)"
    by (simp_all add: table_a2b_base64_def table_b2a_base64_def in_alphabet_def)
qed

lemma quad_step:
  assumes "v1 < 64" "v2 < 64" "v3 < 64" "v4 < 64"
  shows "a2b_loop (table_b2a_base64 v1 # table_b2a_base64 v2 # table_b2a_base64 v3
            # table_b2a_base64 v4 # rest) 0 l p bin
         = a2b_loop rest 0 0 0
             (bin @ [push_bit 2 v1 OR drop_bit 4 v2,
                     push_bit 4 (v2 AND 0x0f) OR drop_bit 2 v3,
                     push_bit 6 (v3 AND 0x03) OR v4])"
  using assms by (simp add: sextet_char)

lemma pad1_step:
  assumes "v1 < 64" "v2 < 64" "v3 < 64"
  shows "a2b_loop (table_b2a_base64 v1 # table_b2a_base64 v2 # table_b2a_base64 v3
            # BASE64_PAD # rest) 0 l p bin
         = Inr (bin @ [push_bit 2 v1 OR drop_bit 4 v2,
                       push_bit 4 (v2 AND 0x0f) OR drop_bit 2 v3])"
  using assms by (simp add: sextet_char)

lemma pad2_step:
  assumes "v1 < 64" "v2 < 64"
  shows "a2b_loop (table_b2a_base64 v1 # table_b2a_base64 v2 # BASE64_PAD # BASE64_PAD # rest)
            0 l p bin
         = Inr (bin @ [push_bit 2 v1 OR drop_bit 4 v2])"
  using assms by (simp add: sextet_char)

lemma a2b_loop_b64encode:
  "a2b_loop (b64encode bs) 0 l p bin = Inr (bin @ bs)"
proof (induction bs arbitrary: l p bin rule: b64encode.induct)
  case 1
  show ?case by simp
next
  case (2 a)
  have "a2b_loop (b64encode [a]) 0 l p bin
        = Inr (bin @ [push_bit 2 (sextet1 a) OR drop_bit 4 (sextet2 a 0)])"
    by (simp only: b64encode.simps pad2_step[OF sextet_bounds(1) sextet_bounds(2)])
  then show ?case by (simp only: first_byte)
next
  case (3 a b)
  have "a2b_loop (b64encode [a, b]) 0 l p bin
        = Inr (bin @ [push_bit 2 (sextet1 a) OR drop_bit 4 (sextet2 a b),
                      push_bit 4 (sextet2 a b AND 0x0f) OR drop_bit 2 (sextet3 b 0)])"
    by (simp only: b64encode.simps
          pad1_step[OF sextet_bounds(1) sextet_bounds(2) sextet_bounds(3)])
  then show ?case by (simp only: first_byte second_byte)
next
  case (4 a b c rest)
  have "a2b_loop (b64encode (a # b # c # rest)) 0 l p bin
        = a2b_loop (b64encode rest) 0 0 0
            (bin @ [push_bit 2 (sextet1 a) OR drop_bit 4 (sextet2 a b),
                    push_bit 4 (sextet2 a b AND 0x0f) OR drop_bit 2 (sextet3 b c),
                    push_bit 6 (sextet3 b c AND 0x03) OR sextet4 c])"
    by (simp only: b64encode.simps append_Cons append_Nil
          quad_step[OF sextet_bounds(1) sextet_bounds(2) sextet_bounds(3) sextet_bounds(4)])
  also have "\<dots> = a2b_loop (b64encode rest) 0 0 0 (bin @ [a, b, c])"
    by (simp only: first_byte second_byte third_byte)
  also have "\<dots> = Inr ((bin @ [a, b, c]) @ rest)"
    by (rule "4.IH")
  finally show ?case by simp
qed

lemma pad_ascii: "is_ascii BASE64_PAD"
  by (simp add: is_ascii_def BASE64_PAD_def)

lemma b64encode_ascii: "list_all is_ascii (b64encode bs)"
  by (induction bs rule: b64encode.induct)
     (simp_all add: sextet_bounds[THEN sextet_char(3)] pad_ascii)

lemma b64encode_std: "std_base64 (b64encode bs)"
  by (induction bs rule: b64encode.induct)
     (simp_all add: sextet_bounds[THEN sextet_char(4)])

lemma b64decode_b64encode: "b64decode (b64encode bs) = Inr bs"
  by (simp add: b64decode_def a2b_base64_def b64encode_ascii a2b_loop_b64encode)

section \<open>The handler's envelopes\<close>

lemma decode_hi: "b64decode ''aGk='' = Inr [104, 105]"
  by code_simp

lemma decode_junk: "b64decode ''aGk=!!!'' = Inr [104, 105]"
  by code_simp

lemma decode_not_base64:
  "b64decode ''!!!not-base64!!!'' =
     Inl (Exn ValueError (''Invalid base64-encoded string: number of data characters (9) ''
       @ ''cannot be 1 more than a multiple of 4''))"
  by code_simp

lemma junk_not_std: "\<not> std_base64 ''aGk=!!!''"
  by code_simp

lemma index_of_Some: "index_of c xs = Some n \<Longrightarrow> n < length xs \<and> xs ! n = c"
  by (induction xs arbitrary: n) (auto split: if_splits)

lemma in_alphabet_char:
  assumes "in_alphabet c"
  shows "c \<noteq> BASE64_PAD" and "is_ascii c" and "\<exists>v. table_a2b_base64 c = Some v"
proof -
  from assms obtain n where n: "index_of c b64_alphabet = Some n"
    by (auto simp: in_alphabet_def split: option.splits)
  from index_of_Some[OF n] have lt: "n < 64" and c: "b64_alphabet ! n = c"
    by (simp_all add: b64_alphabet_def)
  from alphabet_table lt
  have "b64_alphabet ! n \<noteq> BASE64_PAD \<and> is_ascii (b64_alphabet ! n)"
    by (simp add: list_all_iff)
  then show "c \<noteq> BASE64_PAD" and "is_ascii c"
    unfolding c by simp_all
  from n show "\<exists>v. table_a2b_base64 c = Some v"
    by (simp add: table_a2b_base64_def)
qed

lemma a2b_loop_alphabet_only:
  "list_all in_alphabet s \<Longrightarrow> q < 4 \<Longrightarrow>
   (\<exists>m. a2b_loop s q l p bin = Inl m) \<longleftrightarrow> (q + length s) mod 4 \<noteq> 0"
proof (induction s arbitrary: q l p bin)
  case Nil
  then show ?case by auto
next
  case (Cons ch rest)
  from Cons.prems(1) have ch: "in_alphabet ch" and rest: "list_all in_alphabet rest"
    by simp_all
  from in_alphabet_char[OF ch] obtain v where
    v: "table_a2b_base64 ch = Some v" and np: "ch \<noteq> BASE64_PAD"
    by blast
  from Cons.prems(2) consider "q = 0" | "q = 1" | "q = 2" | "q = 3"
    by linarith
  then show ?case
  proof cases
    case 1
    with v np Cons.IH[OF rest, of 1] show ?thesis by simp
  next
    case 2
    with v np Cons.IH[OF rest, of 2] show ?thesis by simp
  next
    case 3
    with v np Cons.IH[OF rest, of 3] show ?thesis by simp
  next
    case 4
    with v np Cons.IH[OF rest, of 0] show ?thesis by simp
  qed
qed

lemma alphabet_only_rejected:
  assumes "list_all in_alphabet s" and "length s mod 4 \<noteq> 0"
  shows "\<exists>x. b64decode s = Inl x"
proof -
  from assms(1) have "list_all is_ascii s"
    by (induction s) (simp_all add: in_alphabet_char)
  moreover from a2b_loop_alphabet_only[OF assms(1), of 0 0 0 "[]"] assms(2)
  obtain m where "a2b_base64 s = Inl m"
    by (auto simp: a2b_base64_def)
  ultimately show ?thesis by (simp add: b64decode_def)
qed

lemma starts_with_append: "starts_with (p @ s) p"
  by (induction p) simp_all

lemma contains_text_suffix: "starts_with s p \<Longrightarrow> contains_text (a @ s) p"
proof (induction a)
  case Nil
  then show ?case by (cases s; cases p) simp_all
next
  case (Cons x a)
  then show ?case by simp
qed

lemma contains_text_infix: "contains_text (a @ p @ b) p"
  by (rule contains_text_suffix) (rule starts_with_append)

lemma not_installed_mentions:
  "contains_text
     (''Whisper not installed locally and no WHISPER_SERVICE_URL provided. ''
      @ ''Please install openai-whisper or configure WHISPER_SERVICE_URL.'')
     ''Whisper not installed locally''"
  "contains_text
     (''Whisper not installed locally and no WHISPER_SERVICE_URL provided. ''
      @ ''Please install openai-whisper or configure WHISPER_SERVICE_URL.'')
     ''no WHISPER_SERVICE_URL provided''"
  by code_simp+

lemma no_audio_mentions_neither:
  "\<not> contains_text
     (''No audio input provided. Use '' @ [CHR 0x27] @ ''audio'' @ [CHR 0x27]
      @ '' (base64) or '' @ [CHR 0x27] @ ''audio_url'' @ [CHR 0x27])
     ''installed''"
  "\<not> contains_text
     (''No audio input provided. Use '' @ [CHR 0x27] @ ''audio'' @ [CHR 0x27]
      @ '' (base64) or '' @ [CHR 0x27] @ ''audio_url'' @ [CHR 0x27])
     ''WHISPER_SERVICE_URL''"
  by code_simp+

lemma no_audio_message_text:
  "no_audio_message =
     ''No audio input provided. Use '' @ [CHR 0x27] @ ''audio'' @ [CHR 0x27]
     @ '' (base64) or '' @ [CHR 0x27] @ ''audio_url'' @ [CHR 0x27]"
  by (simp add: no_audio_message_def apos_def)

lemma handler_cases:
  "handler e (PDict job) =
     (case handler_body e (dict_get job ''input'' (PDict [])) of
        (Inr r, tr) \<Rightarrow> (Inr [(''status'', PStr ''success''), (''transcription'', r)], tr)
      | (Inl x, tr) \<Rightarrow> (Inr [(''status'', PStr ''error''), (''error'', PStr (exn_msg x))], tr))"
  by (simp add: handler_def)

lemma handler_raises_without_mapping:
  "handler e (PList []) =
     (Inl (Exn AttributeError
        ([CHR 0x27] @ ''list'' @ [CHR 0x27] @ '' object has no attribute '' @ [CHR 0x27]
         @ ''get'' @ [CHR 0x27])), [])"
  by (simp add: handler_def apos_def)

lemma handler_body_resolver_failure:
  "process_audio_input e d = (Inl x, tr) \<Longrightarrow> handler_body e (PDict d) = (Inl x, tr)"
  by (simp add: handler_body_def)

lemma handler_body_resolved:
  "process_audio_input e d = (Inr b, tr) \<Longrightarrow>
   transcribe_audio e (WhisperTranscriber_init e) b (dict_get d ''language'' PNone)
     (dict_get d ''task'' (PStr ''transcribe'')) (dict_get d ''return_timestamps'' (PBool True))
     = (res, tr') \<Longrightarrow>
   handler_body e (PDict d) = (res, tr @ tr')"
  by (simp add: handler_body_def)

text \<open>
  Claim C1. For every environment and every job that is a mapping, the handler does
  not raise: it returns a dict, and that dict is either
  \<open>{status: success, transcription: r}\<close> or \<open>{status: error, error: m}\<close>, never both.
  A failure of the audio resolver gives the error envelope with that failure's message
  and nothing is called after the resolver; a failure of the transcription dispatcher
  gives the error envelope with its message; only when both return does the handler
  give the success envelope, holding the dispatcher's result. (On a job that is not a
  mapping the handler does raise: \<open>handler_raises_without_mapping\<close>.)
\<close>

theorem handler_envelope_total:
  "(\<exists>d tr. handler e (PDict job) = (Inr d, tr) \<and>
      ((\<exists>r. d = [(''status'', PStr ''success''), (''transcription'', r)]) \<or>
       (\<exists>m. d = [(''status'', PStr ''error''), (''error'', PStr m)])) \<and>
      \<not> ((\<exists>r. d = [(''status'', PStr ''success''), (''transcription'', r)]) \<and>
         (\<exists>m. d = [(''status'', PStr ''error''), (''error'', PStr m)]))) \<and>
   (\<forall>x tr. handler e (PDict job) \<noteq> (Inl x, tr)) \<and>
   (\<forall>d x tr. dict_get job ''input'' (PDict []) = PDict d \<longrightarrow>
      process_audio_input e d = (Inl x, tr) \<longrightarrow>
      handler e (PDict job) =
        (Inr [(''status'', PStr ''error''), (''error'', PStr (exn_msg x))], tr)) \<and>
   (\<forall>d b tr x tr'. dict_get job ''input'' (PDict []) = PDict d \<longrightarrow>
      process_audio_input e d = (Inr b, tr) \<longrightarrow>
      transcribe_audio e (WhisperTranscriber_init e) b (dict_get d ''language'' PNone)
        (dict_get d ''task'' (PStr ''transcribe''))
        (dict_get d ''return_timestamps'' (PBool True)) = (Inl x, tr') \<longrightarrow>
      handler e (PDict job) =
        (Inr [(''status'', PStr ''error''), (''error'', PStr (exn_msg x))], tr @ tr')) \<and>
   (\<forall>d b tr r tr'. dict_get job ''input'' (PDict []) = PDict d \<longrightarrow>
      process_audio_input e d = (Inr b, tr) \<longrightarrow>
      transcribe_audio e (WhisperTranscriber_init e) b (dict_get d ''language'' PNone)
        (dict_get d ''task'' (PStr ''transcribe''))
        (dict_get d ''return_timestamps'' (PBool True)) = (Inr r, tr') \<longrightarrow>
      handler e (PDict job) =
        (Inr [(''status'', PStr ''success''), (''transcription'', r)], tr @ tr'))"
proof (intro conjI allI impI)
  obtain res tr where hb: "handler_body e (dict_get job ''input'' (PDict [])) = (res, tr)"
    by (cases "handler_body e (dict_get job ''input'' (PDict []))")
  show "\<exists>d tr. handler e (PDict job) = (Inr d, tr) \<and>
      ((\<exists>r. d = [(''status'', PStr ''success''), (''transcription'', r)]) \<or>
       (\<exists>m. d = [(''status'', PStr ''error''), (''error'', PStr m)])) \<and>
      \<not> ((\<exists>r. d = [(''status'', PStr ''success''), (''transcription'', r)]) \<and>
         (\<exists>m. d = [(''status'', PStr ''error''), (''error'', PStr m)]))"
    using hb by (cases res) (auto simp: handler_cases)
  fix x tr'
  show "handler e (PDict job) \<noteq> (Inl x, tr')"
    using hb by (cases res) (auto simp: handler_cases)
next
  fix d x tr
  assume "dict_get job ''input'' (PDict []) = PDict d" "process_audio_input e d = (Inl x, tr)"
  then show "handler e (PDict job) =
      (Inr [(''status'', PStr ''error''), (''error'', PStr (exn_msg x))], tr)"
    by (simp add: handler_cases handler_body_resolver_failure)
next
  fix d b tr x tr'
  assume "dict_get job ''input'' (PDict []) = PDict d" "process_audio_input e d = (Inr b, tr)"
    "transcribe_audio e (WhisperTranscriber_init e) b (dict_get d ''language'' PNone)
        (dict_get d ''task'' (PStr ''transcribe''))
        (dict_get d ''return_timestamps'' (PBool True)) = (Inl x, tr')"
  then show "handler e (PDict job) =
      (Inr [(''status'', PStr ''error''), (''error'', PStr (exn_msg x))], tr @ tr')"
    by (simp add: handler_cases handler_body_resolved)
next
  fix d b tr r tr'
  assume "dict_get job ''input'' (PDict []) = PDict d" "process_audio_input e d = (Inr b, tr)"
    "transcribe_audio e (WhisperTranscriber_init e) b (dict_get d ''language'' PNone)
        (dict_get d ''task'' (PStr ''transcribe''))
        (dict_get d ''return_timestamps'' (PBool True)) = (Inr r, tr')"
  then show "handler e (PDict job) =
      (Inr [(''status'', PStr ''success''), (''transcription'', r)], tr @ tr')"
    by (simp add: handler_cases handler_body_resolved)
qed

text \<open>
  Claim C4. When the job input has neither the key \<open>audio\<close> nor the key
  \<open>audio_url\<close>, the handler returns the error envelope with the message
  \<open>No audio input provided. Use 'audio' (base64) or 'audio_url'\<close>, and makes no
  outbound call.
\<close>

theorem missing_input_error:
  assumes "dict_get job ''input'' (PDict []) = PDict d"
    and "\<not> dict_in ''audio'' d" and "\<not> dict_in ''audio_url'' d"
  shows "handler e (PDict job) =
           (Inr [(''status'', PStr ''error''),
                 (''error'', PStr (''No audio input provided. Use '' @ [CHR 0x27] @ ''audio''
                    @ [CHR 0x27] @ '' (base64) or '' @ [CHR 0x27] @ ''audio_url''
                    @ [CHR 0x27]))], [])"
  using assms
  by (simp add: handler_cases handler_body_def process_audio_input_def no_audio_message_text)

text \<open>
  Claim C10. When \<open>audio\<close> is present and its value is neither a string nor bytes,
  the handler returns the error envelope with the message
  \<open>Audio data must be base64 string or bytes\<close>, and makes no outbound call.
\<close>

theorem audio_wrong_type_error:
  assumes "dict_get job ''input'' (PDict []) = PDict d"
    and "map_of d ''audio'' = Some v"
    and "\<forall>s. v \<noteq> PStr s" and "\<forall>b. v \<noteq> PBytes b"
  shows "handler e (PDict job) =
           (Inr [(''status'', PStr ''error''),
                 (''error'', PStr ''Audio data must be base64 string or bytes'')], [])"
  using assms
  by (cases v) (simp_all add: handler_cases handler_body_def process_audio_input_def
      dict_in_def dict_get_def)

lemma init_external:
  assumes "getenv e ''WHISPER_SERVICE_URL'' = Some u" and "u \<noteq> []"
  shows "use_external_service (WhisperTranscriber_init e)"
    and "whisper_service_url (WhisperTranscriber_init e) = Some u"
  using assms by (simp_all add: WhisperTranscriber_init_def)

lemma init_local:
  assumes "getenv e ''WHISPER_SERVICE_URL'' = None \<or> getenv e ''WHISPER_SERVICE_URL'' = Some []"
  shows "\<not> use_external_service (WhisperTranscriber_init e)"
  using assms by (auto simp: WhisperTranscriber_init_def)

text \<open>
  Claim C2. With a non-empty backend URL \<open>u\<close> configured and the audio resolved to
  any bytes, if the backend answers the POST that the dispatcher sends (to
  \<open>u/transcribe\<close>, the audio as the file part) with status 200 and a body that parses
  as JSON, the handler returns the dict \<open>{status: success, transcription: body}\<close>
  whose \<open>transcription\<close> is that parsed body itself, whatever its shape.
\<close>

theorem remote_success_verbatim:
  assumes "getenv e ''WHISPER_SERVICE_URL'' = Some u" and "u \<noteq> []"
    and "dict_get job ''input'' (PDict []) = PDict d"
    and "process_audio_input e d = (Inr audio_bytes, tr)"
    and "req = whisper_request (WhisperTranscriber_init e) audio_bytes
                 (dict_get d ''language'' PNone) (dict_get d ''task'' (PStr ''transcribe''))
                 (dict_get d ''return_timestamps'' (PBool True))"
    and "http_post e req = Responds r" and "status_code r = 200" and "json r = Inr body"
  shows "handler e (PDict job) =
           (Inr [(''status'', PStr ''success''), (''transcription'', body)],
            tr @ [HttpPost req]) \<and>
         post_url req = u @ ''/transcribe'' \<and>
         post_files req = [(''audio'', ''audio.wav'', audio_bytes, ''audio/wav'')]"
proof -
  have "transcribe_audio e (WhisperTranscriber_init e) audio_bytes
          (dict_get d ''language'' PNone) (dict_get d ''task'' (PStr ''transcribe''))
          (dict_get d ''return_timestamps'' (PBool True)) = (Inr body, [HttpPost req])"
    using assms
    by (simp add: transcribe_audio_def init_external call_whisper_service_def
        raise_for_status_def)
  with assms(3,4) have "handler e (PDict job) =
      (Inr [(''status'', PStr ''success''), (''transcription'', body)], tr @ [HttpPost req])"
    by (simp add: handler_cases handler_body_resolved)
  moreover have "post_url req = u @ ''/transcribe''"
    using assms(1,2,5) by (simp add: whisper_request_def init_external)
  moreover have "post_files req = [(''audio'', ''audio.wav'', audio_bytes, ''audio/wav'')]"
    using assms(5) by (simp add: whisper_request_def)
  ultimately show ?thesis by simp
qed

text \<open>
  Claim C3, as the code has it. Whenever the decode step fails on the string under
  \<open>audio\<close>, the handler returns the error envelope whose message is
  \<open>Invalid base64 audio data: \<close> followed by the decoder's message, and makes no
  outbound call. The decoder is the lenient one of the standard library: it rejects a
  string with a character outside ASCII and a string whose alphabet characters leave a
  quad open, and accepts some strings that are not standard base64.
\<close>

theorem undecodable_audio_error:
  assumes "dict_get job ''input'' (PDict []) = PDict d"
    and "map_of d ''audio'' = Some (PStr s)"
    and "b64decode s = Inl x"
  shows "handler e (PDict job) =
           (Inr [(''status'', PStr ''error''),
                 (''error'', PStr (''Invalid base64 audio data: '' @ exn_msg x))], [])"
  using assms
  by (simp add: handler_cases handler_body_def process_audio_input_def dict_in_def dict_get_def)

text \<open>
  Claim C5. For a job input without \<open>audio\<close> and with \<open>audio_url\<close>, if the GET
  raises an \<^verbatim>\<open>httpx.HTTPError\<close> (a transport failure) or answers with a status
  outside 200..299, the handler returns the error envelope with the message
  \<open>Failed to download audio from URL: \<close> followed by the underlying message, and the
  GET is the only call made: no POST to the backend, no import or run of the local
  model.
\<close>

theorem download_failure_no_transcription:
  assumes "dict_get job ''input'' (PDict []) = PDict d"
    and "\<not> dict_in ''audio'' d" and "map_of d ''audio_url'' = Some url"
    and "(http_get e url = Raises x \<and> exn_cls x = HTTPError \<and> m = exn_msg x) \<or>
         (http_get e url = Responds r \<and> (status_code r < 200 \<or> 299 < status_code r)
            \<and> m = status_error r)"
  shows "handler e (PDict job) =
           (Inr [(''status'', PStr ''error''),
                 (''error'', PStr (''Failed to download audio from URL: '' @ m))],
            [HttpGet url]) \<and>
         \<not> list_ex is_transcription_call (snd (handler e (PDict job)))"
proof -
  have "download_audio e url =
          (Inl (Exn PlainException (''Failed to download audio from URL: '' @ m)), [HttpGet url])"
    using assms(4)
    by (auto simp: download_audio_def raise_for_status_def download_failure_def)
  with assms(1-3) show ?thesis
    by (simp add: handler_cases handler_body_def process_audio_input_def dict_in_def dict_get_def)
qed

text \<open>
  Claim C6. With a non-empty backend URL configured and the audio resolved, if the
  POST raises an \<^verbatim>\<open>httpx.HTTPError\<close> or is answered with a status outside 200..299,
  the handler returns the dict \<open>{status: error, error: message}\<close> whose message is
  \<open>Failed to call Whisper service: \<close> followed by the underlying message; that
  message contains the text \<open>Whisper service\<close>.
\<close>

theorem backend_failure_error:
  assumes "getenv e ''WHISPER_SERVICE_URL'' = Some u" and "u \<noteq> []"
    and "dict_get job ''input'' (PDict []) = PDict d"
    and "process_audio_input e d = (Inr audio_bytes, tr)"
    and "req = whisper_request (WhisperTranscriber_init e) audio_bytes
                 (dict_get d ''language'' PNone) (dict_get d ''task'' (PStr ''transcribe''))
                 (dict_get d ''return_timestamps'' (PBool True))"
    and "(http_post e req = Raises x \<and> exn_cls x = HTTPError \<and> m = exn_msg x) \<or>
         (http_post e req = Responds r \<and> (status_code r < 200 \<or> 299 < status_code r)
            \<and> m = status_error r)"
  shows "handler e (PDict job) =
           (Inr [(''status'', PStr ''error''),
                 (''error'', PStr (''Failed to call Whisper service: '' @ m))],
            tr @ [HttpPost req]) \<and>
         contains_text (''Failed to call Whisper service: '' @ m) ''Whisper service''"
proof -
  have "transcribe_audio e (WhisperTranscriber_init e) audio_bytes
          (dict_get d ''language'' PNone) (dict_get d ''task'' (PStr ''transcribe''))
          (dict_get d ''return_timestamps'' (PBool True))
        = (Inl (Exn PlainException (''Failed to call Whisper service: '' @ m)), [HttpPost req])"
    using assms(1,2,5,6)
    by (auto simp: transcribe_audio_def init_external call_whisper_service_def
        raise_for_status_def whisper_service_failure_def)
  with assms(3,4) have "handler e (PDict job) =
           (Inr [(''status'', PStr ''error''),
                 (''error'', PStr (''Failed to call Whisper service: '' @ m))],
            tr @ [HttpPost req])"
    by (simp add: handler_cases handler_body_resolved)
  moreover have "contains_text (''Failed to call '' @ ''Whisper service'' @ ('': '' @ m))
      ''Whisper service''"
    by (rule contains_text_infix)
  ultimately show ?thesis by simp
qed

text \<open>
  Claim C7, as the code has it. With no backend URL configured (unset or empty, so
  that the dispatcher takes the local path) and the local model not importable, every
  job that is a mapping ends in an error envelope; and for every job whose audio
  resolves, so that the dispatcher is reached, the message is the one that says that
  Whisper is not installed locally and that no \<^verbatim>\<open>WHISPER_SERVICE_URL\<close> is provided,
  and asks to install \<^verbatim>\<open>openai-whisper\<close> or to configure \<^verbatim>\<open>WHISPER_SERVICE_URL\<close>.
  A job whose audio does not resolve gets the resolver's message instead.
\<close>

theorem no_backend_no_model_error:
  assumes "getenv e ''WHISPER_SERVICE_URL'' = None \<or> getenv e ''WHISPER_SERVICE_URL'' = Some []"
    and "\<not> whisper_importable e"
  shows "(\<exists>m tr. handler e (PDict job) =
            (Inr [(''status'', PStr ''error''), (''error'', PStr m)], tr)) \<and>
         (\<forall>d audio_bytes tr. dict_get job ''input'' (PDict []) = PDict d \<longrightarrow>
            process_audio_input e d = (Inr audio_bytes, tr) \<longrightarrow>
            handler e (PDict job) =
              (Inr [(''status'', PStr ''error''),
                    (''error'', PStr
                       (''Whisper not installed locally and no WHISPER_SERVICE_URL provided. ''
                        @ ''Please install openai-whisper or configure WHISPER_SERVICE_URL.''))],
               tr @ [ImportWhisper])) \<and>
         contains_text
           (''Whisper not installed locally and no WHISPER_SERVICE_URL provided. ''
            @ ''Please install openai-whisper or configure WHISPER_SERVICE_URL.'')
           ''Whisper not installed locally'' \<and>
         contains_text
           (''Whisper not installed locally and no WHISPER_SERVICE_URL provided. ''
            @ ''Please install openai-whisper or configure WHISPER_SERVICE_URL.'')
           ''no WHISPER_SERVICE_URL provided''"
proof -
  have local: "transcribe_audio e (WhisperTranscriber_init e) b l t r
        = (Inl whisper_not_installed, [ImportWhisper])" for b l t r
    using assms(2) init_local[OF assms(1)]
    by (simp add: transcribe_audio_def use_local_whisper_def)
  have resolved: "handler e (PDict job) =
      (Inr [(''status'', PStr ''error''), (''error'', PStr (exn_msg whisper_not_installed))],
       tr @ [ImportWhisper])"
    if "dict_get job ''input'' (PDict []) = PDict d"
      and "process_audio_input e d = (Inr audio_bytes, tr)" for d audio_bytes tr
    using that handler_body_resolved[OF that(2) local]
    by (simp add: handler_cases)
  have always: "\<exists>m tr. handler e (PDict job) =
      (Inr [(''status'', PStr ''error''), (''error'', PStr m)], tr)"
  proof (cases "dict_get job ''input'' (PDict [])")
    case (PDict d)
    obtain res tr where p: "process_audio_input e d = (res, tr)"
      by (cases "process_audio_input e d")
    show ?thesis
    proof (cases res)
      case (Inl x)
      with p PDict show ?thesis
        by (auto simp: handler_cases handler_body_resolver_failure)
    next
      case (Inr b)
      with p PDict resolved show ?thesis by blast
    qed
  qed (auto simp: handler_cases handler_body_def)
  from resolved have
    "\<forall>d audio_bytes tr. dict_get job ''input'' (PDict []) = PDict d \<longrightarrow>
       process_audio_input e d = (Inr audio_bytes, tr) \<longrightarrow>
       handler e (PDict job) =
         (Inr [(''status'', PStr ''error''),
               (''error'', PStr
                  (''Whisper not installed locally and no WHISPER_SERVICE_URL provided. ''
                   @ ''Please install openai-whisper or configure WHISPER_SERVICE_URL.''))],
          tr @ [ImportWhisper])"
    by (simp add: whisper_not_installed_def)
  with always not_installed_mentions show ?thesis
    by blast
qed

text \<open>
  Claim C8. When both \<open>audio\<close> and \<open>audio_url\<close> are present, the resolver's result
  is the one of a job input holding \<open>audio\<close> alone, in any environment: a string is
  decoded, bytes are passed through, and no call leaves the resolver. In general a GET
  among the resolver's calls means that \<open>audio\<close> is absent.
\<close>

theorem audio_takes_precedence:
  "(dict_in ''audio'' d \<and> dict_in ''audio_url'' d \<longrightarrow>
      process_audio_input e d = process_audio_input e' [(''audio'', dict_get d ''audio'' PNone)]
      \<and> snd (process_audio_input e d) = []
      \<and> (\<forall>s b. map_of d ''audio'' = Some (PStr s) \<and> b64decode s = Inr b \<longrightarrow>
            fst (process_audio_input e d) = Inr b)
      \<and> (\<forall>b. map_of d ''audio'' = Some (PBytes b) \<longrightarrow> fst (process_audio_input e d) = Inr b))
   \<and> (\<forall>u. HttpGet u \<in> set (snd (process_audio_input e d)) \<longrightarrow> \<not> dict_in ''audio'' d)"
proof (intro conjI impI allI)
  assume both: "dict_in ''audio'' d \<and> dict_in ''audio_url'' d"
  then show "process_audio_input e d
      = process_audio_input e' [(''audio'', dict_get d ''audio'' PNone)]"
    by (simp add: process_audio_input_def dict_in_def dict_get_def)
  from both show "snd (process_audio_input e d) = []"
    by (simp add: process_audio_input_def split: pyval.splits sum.splits)
  {
    fix s b
    assume "map_of d ''audio'' = Some (PStr s) \<and> b64decode s = Inr b"
    then show "fst (process_audio_input e d) = Inr b"
      by (simp add: process_audio_input_def dict_in_def dict_get_def)
  }
  {
    fix b
    assume "map_of d ''audio'' = Some (PBytes b)"
    then show "fst (process_audio_input e d) = Inr b"
      by (simp add: process_audio_input_def dict_in_def dict_get_def)
  }
next
  fix u
  assume "HttpGet u \<in> set (snd (process_audio_input e d))"
  then show "\<not> dict_in ''audio'' d"
    by (auto simp: process_audio_input_def split: pyval.splits sum.splits if_splits)
qed

text \<open>
  Claim C9. For every byte sequence \<open>b\<close>, the decode step applied to the standard
  base64 encoding of \<open>b\<close> yields \<open>b\<close>, and so does the resolver on a job input whose
  \<open>audio\<close> is that encoding.
\<close>

theorem decode_roundtrip:
  "b64decode (b64encode b) = Inr b \<and>
   process_audio_input e ((''audio'', PStr (b64encode b)) # d) = (Inr b, [])"
  by (simp add: b64decode_b64encode process_audio_input_def dict_in_def dict_get_def)

section \<open>The theorems at the sample jobs\<close>

lemma job_of_input: "dict_get (job_of d) ''input'' (PDict []) = PDict d"
  by (simp add: job_of_def dict_get_def)

lemma resolve_hi: "process_audio_input e hi_input = (Inr [104, 105], [])"
  by (simp add: process_audio_input_def hi_input_def dict_in_def dict_get_def decode_hi)

lemma resolve_junk: "process_audio_input e junk_input = (Inr [104, 105], [])"
  by (simp add: process_audio_input_def junk_input_def dict_in_def dict_get_def decode_junk)

lemma mock_backend_url: "getenv mock_backend_env ''WHISPER_SERVICE_URL'' = Some ''http://whisper''"
  by (simp add: mock_backend_env_def)

lemma failing_backend_url:
  "getenv failing_backend_env ''WHISPER_SERVICE_URL'' = Some ''http://whisper''"
  by (simp add: failing_backend_env_def mock_backend_env_def)

lemma hi_request_mock:
  "whisper_request (WhisperTranscriber_init mock_backend_env) [104, 105]
     (dict_get hi_input ''language'' PNone) (dict_get hi_input ''task'' (PStr ''transcribe''))
     (dict_get hi_input ''return_timestamps'' (PBool True)) = hi_request"
  by (simp add: whisper_request_def WhisperTranscriber_init_def mock_backend_env_def
      hi_input_def dict_get_def hi_request_def)

lemma hi_request_failing:
  "whisper_request (WhisperTranscriber_init failing_backend_env) [104, 105]
     (dict_get hi_input ''language'' PNone) (dict_get hi_input ''task'' (PStr ''transcribe''))
     (dict_get hi_input ''return_timestamps'' (PBool True)) = hi_request"
  by (simp add: whisper_request_def WhisperTranscriber_init_def failing_backend_env_def
      mock_backend_env_def hi_input_def dict_get_def hi_request_def)

lemma hi_request_junk:
  "whisper_request (WhisperTranscriber_init mock_backend_env) [104, 105]
     (dict_get junk_input ''language'' PNone) (dict_get junk_input ''task'' (PStr ''transcribe''))
     (dict_get junk_input ''return_timestamps'' (PBool True)) = hi_request"
  by (simp add: whisper_request_def WhisperTranscriber_init_def mock_backend_env_def
      junk_input_def dict_get_def hi_request_def)

lemma mock_backend_answer:
  "http_post mock_backend_env hi_request =
     Responds \<lparr>status_code = 200, content = [], json = Inr hello_result, status_error = []\<rparr>"
  by (simp add: mock_backend_env_def)

lemma transcribe_hi_mock:
  "transcribe_audio mock_backend_env (WhisperTranscriber_init mock_backend_env) [104, 105]
     (dict_get hi_input ''language'' PNone) (dict_get hi_input ''task'' (PStr ''transcribe''))
     (dict_get hi_input ''return_timestamps'' (PBool True))
   = (Inr hello_result, [HttpPost hi_request])"
  using mock_backend_answer
  by (simp add: transcribe_audio_def init_external[OF mock_backend_url]
      call_whisper_service_def hi_request_mock raise_for_status_def)

theorem handler_envelope_total_witness:
  "process_audio_input mock_backend_env malformed_input =
     (Inl (Exn ValueError (''Invalid base64 audio data: Invalid base64-encoded string: ''
        @ ''number of data characters (9) cannot be 1 more than a multiple of 4'')), []) \<and>
   handler mock_backend_env (PDict (job_of malformed_input)) =
     (Inr [(''status'', PStr ''error''),
           (''error'', PStr (''Invalid base64 audio data: Invalid base64-encoded string: ''
              @ ''number of data characters (9) cannot be 1 more than a multiple of 4''))], []) \<and>
   handler mock_backend_env (PDict (job_of hi_input)) =
     (Inr [(''status'', PStr ''success''),
           (''transcription'',
            PDict [(''text'', PStr ''hello''), (''segments'', PList []),
                   (''language'', PStr ''en'')])],
      [HttpPost hi_request])"
proof -
  have r: "process_audio_input mock_backend_env malformed_input =
     (Inl (Exn ValueError (''Invalid base64 audio data: Invalid base64-encoded string: ''
        @ ''number of data characters (9) cannot be 1 more than a multiple of 4'')), [])"
    by (simp add: process_audio_input_def malformed_input_def dict_in_def dict_get_def
        decode_not_base64)
  from handler_envelope_total[of mock_backend_env "job_of malformed_input"] job_of_input r
  have bad: "handler mock_backend_env (PDict (job_of malformed_input)) =
     (Inr [(''status'', PStr ''error''),
           (''error'', PStr (''Invalid base64 audio data: Invalid base64-encoded string: ''
              @ ''number of data characters (9) cannot be 1 more than a multiple of 4''))], [])"
    by simp
  from handler_envelope_total[of mock_backend_env "job_of hi_input"]
    job_of_input[of hi_input] resolve_hi[of mock_backend_env] transcribe_hi_mock
  have "handler mock_backend_env (PDict (job_of hi_input)) =
     (Inr [(''status'', PStr ''success''), (''transcription'', hello_result)],
      [HttpPost hi_request])"
    by simp
  with r bad show ?thesis by (simp add: hello_result_def)
qed

theorem remote_success_verbatim_witness:
  "http_post mock_backend_env hi_request =
     Responds \<lparr>status_code = 200, content = [],
       json = Inr (PDict [(''text'', PStr ''hello''), (''segments'', PList []),
                          (''language'', PStr ''en'')]),
       status_error = []\<rparr> \<and>
   handler mock_backend_env (PDict (job_of hi_input)) =
     (Inr [(''status'', PStr ''success''),
           (''transcription'',
            PDict [(''text'', PStr ''hello''), (''segments'', PList []),
                   (''language'', PStr ''en'')])],
      [HttpPost hi_request]) \<and>
   post_url hi_request = ''http://whisper/transcribe''"
proof -
  from remote_success_verbatim[OF mock_backend_url _ job_of_input resolve_hi
      hi_request_mock[symmetric] mock_backend_answer]
  show ?thesis using mock_backend_answer by (simp add: hello_result_def)
qed

text \<open>
  The string \<open>aGk=!!!\<close> is not standard base64, yet the decode step accepts it (the
  characters after the completing pad are ignored) and the job ends in a success
  envelope: the decoder rejects less than the strings outside standard base64.
\<close>

theorem lenient_decode_counterexample:
  "\<not> std_base64 ''aGk=!!!'' \<and>
   b64decode ''aGk=!!!'' = Inr [104, 105] \<and>
   handler mock_backend_env (PDict (job_of junk_input)) =
     (Inr [(''status'', PStr ''success''),
           (''transcription'',
            PDict [(''text'', PStr ''hello''), (''segments'', PList []),
                   (''language'', PStr ''en'')])],
      [HttpPost hi_request])"
proof -
  have "transcribe_audio mock_backend_env (WhisperTranscriber_init mock_backend_env) [104, 105]
     (dict_get junk_input ''language'' PNone) (dict_get junk_input ''task'' (PStr ''transcribe''))
     (dict_get junk_input ''return_timestamps'' (PBool True)) = (Inr hello_result, [HttpPost hi_request])"
    using mock_backend_answer
    by (simp add: transcribe_audio_def init_external[OF mock_backend_url]
        call_whisper_service_def hi_request_junk raise_for_status_def)
  then have "handler mock_backend_env (PDict (job_of junk_input)) =
     (Inr [(''status'', PStr ''success''), (''transcription'', hello_result)],
      [HttpPost hi_request])"
    using handler_body_resolved[OF resolve_junk]
    by (simp add: handler_cases job_of_input)
  with junk_not_std decode_junk show ?thesis by (simp add: hello_result_def)
qed

theorem undecodable_audio_error_witness:
  "b64decode ''!!!not-base64!!!'' =
     Inl (Exn ValueError (''Invalid base64-encoded string: number of data characters (9) ''
       @ ''cannot be 1 more than a multiple of 4'')) \<and>
   handler mock_backend_env (PDict (job_of malformed_input)) =
     (Inr [(''status'', PStr ''error''),
           (''error'', PStr (''Invalid base64 audio data: Invalid base64-encoded string: ''
              @ ''number of data characters (9) cannot be 1 more than a multiple of 4''))], [])"
proof -
  have m: "map_of malformed_input ''audio'' = Some (PStr ''!!!not-base64!!!'')"
    by (simp add: malformed_input_def)
  from undecodable_audio_error[OF job_of_input m decode_not_base64, of mock_backend_env]
  show ?thesis using decode_not_base64 by simp
qed

theorem missing_input_error_witness:
  "\<not> dict_in ''audio'' language_only_input \<and>
   \<not> dict_in ''audio_url'' language_only_input \<and>
   handler mock_backend_env (PDict (job_of language_only_input)) =
     (Inr [(''status'', PStr ''error''),
           (''error'', PStr (''No audio input provided. Use '' @ [CHR 0x27] @ ''audio''
              @ [CHR 0x27] @ '' (base64) or '' @ [CHR 0x27] @ ''audio_url''
              @ [CHR 0x27]))], [])"
proof -
  have a: "\<not> dict_in ''audio'' language_only_input"
    and b: "\<not> dict_in ''audio_url'' language_only_input"
    by (simp_all add: dict_in_def language_only_input_def)
  from missing_input_error[OF job_of_input a b, of mock_backend_env] a b
  show ?thesis by simp
qed

theorem download_failure_no_transcription_witness:
  "http_get mock_backend_env (PStr ''http://host/a.wav'') =
     Responds \<lparr>status_code = 404, content = [], json = Inr PNone, status_error = ''Client error''\<rparr> \<and>
   handler mock_backend_env (PDict (job_of url_input)) =
     (Inr [(''status'', PStr ''error''),
           (''error'', PStr ''Failed to download audio from URL: Client error'')],
      [HttpGet (PStr ''http://host/a.wav'')])"
proof -
  have a: "\<not> dict_in ''audio'' url_input"
    and u: "map_of url_input ''audio_url'' = Some (PStr ''http://host/a.wav'')"
    by (simp_all add: dict_in_def url_input_def)
  have g: "http_get mock_backend_env (PStr ''http://host/a.wav'') =
     Responds \<lparr>status_code = 404, content = [], json = Inr PNone, status_error = ''Client error''\<rparr>"
    by (simp add: mock_backend_env_def)
  from download_failure_no_transcription[OF job_of_input a u, of mock_backend_env "Exn HTTPError []"
      "''Client error''"
      "\<lparr>status_code = 404, content = [], json = Inr PNone, status_error = ''Client error''\<rparr>"] g
  show ?thesis by simp
qed

theorem backend_failure_error_witness:
  "http_post failing_backend_env hi_request =
     Responds \<lparr>status_code = 500, content = [], json = Inr PNone, status_error = ''Server error''\<rparr> \<and>
   handler failing_backend_env (PDict (job_of hi_input)) =
     (Inr [(''status'', PStr ''error''),
           (''error'', PStr ''Failed to call Whisper service: Server error'')],
      [HttpPost hi_request])"
proof -
  have p: "http_post failing_backend_env hi_request =
     Responds \<lparr>status_code = 500, content = [], json = Inr PNone, status_error = ''Server error''\<rparr>"
    by (simp add: failing_backend_env_def)
  from backend_failure_error[OF failing_backend_url _ job_of_input resolve_hi
      hi_request_failing[symmetric], of "Exn HTTPError []" "''Server error''"
      "\<lparr>status_code = 500, content = [], json = Inr PNone, status_error = ''Server error''\<rparr>"] p
  show ?thesis by simp
qed

text \<open>
  With no backend configured and the local model not importable, a job without
  \<open>audio\<close> and \<open>audio_url\<close> ends in the error envelope of the resolver: its message
  speaks of neither the local model nor \<^verbatim>\<open>WHISPER_SERVICE_URL\<close>, and the dispatcher
  is not reached.
\<close>

theorem no_audio_before_dispatch_counterexample:
  "getenv no_backend_env ''WHISPER_SERVICE_URL'' = None \<and>
   \<not> whisper_importable no_backend_env \<and>
   handler no_backend_env (PDict (job_of language_only_input)) =
     (Inr [(''status'', PStr ''error''),
           (''error'', PStr (''No audio input provided. Use '' @ [CHR 0x27] @ ''audio''
              @ [CHR 0x27] @ '' (base64) or '' @ [CHR 0x27] @ ''audio_url''
              @ [CHR 0x27]))], []) \<and>
   \<not> contains_text
       (''No audio input provided. Use '' @ [CHR 0x27] @ ''audio'' @ [CHR 0x27]
        @ '' (base64) or '' @ [CHR 0x27] @ ''audio_url'' @ [CHR 0x27])
       ''installed'' \<and>
   \<not> contains_text
       (''No audio input provided. Use '' @ [CHR 0x27] @ ''audio'' @ [CHR 0x27]
        @ '' (base64) or '' @ [CHR 0x27] @ ''audio_url'' @ [CHR 0x27])
       ''WHISPER_SERVICE_URL''"
proof -
  have g: "getenv no_backend_env ''WHISPER_SERVICE_URL'' = None"
    and w: "\<not> whisper_importable no_backend_env"
    by (simp_all add: no_backend_env_def mock_backend_env_def)
  have "handler no_backend_env (PDict (job_of language_only_input)) =
     (Inr [(''status'', PStr ''error''),
           (''error'', PStr (''No audio input provided. Use '' @ [CHR 0x27] @ ''audio''
              @ [CHR 0x27] @ '' (base64) or '' @ [CHR 0x27] @ ''audio_url''
              @ [CHR 0x27]))], [])"
    by (simp add: handler_cases job_of_input handler_body_def process_audio_input_def
        language_only_input_def dict_in_def no_audio_message_text)
  with g w no_audio_mentions_neither show ?thesis by blast
qed

theorem no_backend_no_model_error_witness:
  "getenv no_backend_env ''WHISPER_SERVICE_URL'' = None \<and>
   \<not> whisper_importable no_backend_env \<and>
   process_audio_input no_backend_env hi_input = (Inr [104, 105], []) \<and>
   handler no_backend_env (PDict (job_of hi_input)) =
     (Inr [(''status'', PStr ''error''),
           (''error'', PStr
              (''Whisper not installed locally and no WHISPER_SERVICE_URL provided. ''
               @ ''Please install openai-whisper or configure WHISPER_SERVICE_URL.''))],
      [ImportWhisper])"
proof -
  have g: "getenv no_backend_env ''WHISPER_SERVICE_URL'' = None"
    and w: "\<not> whisper_importable no_backend_env"
    by (simp_all add: no_backend_env_def mock_backend_env_def)
  from no_backend_no_model_error[OF disjI1[OF g] w, of "job_of hi_input"]
    job_of_input[of hi_input] resolve_hi[of no_backend_env] g w
  show ?thesis by simp
qed

theorem audio_takes_precedence_witness:
  "dict_in ''audio'' both_input \<and> dict_in ''audio_url'' both_input \<and>
   process_audio_input mock_backend_env both_input = (Inr [104, 105], [])"
proof -
  have a: "dict_in ''audio'' both_input \<and> dict_in ''audio_url'' both_input"
    and m: "map_of both_input ''audio'' = Some (PStr ''aGk='')"
    by (simp_all add: dict_in_def both_input_def)
  from audio_takes_precedence[of both_input mock_backend_env mock_backend_env] a
  have s: "snd (process_audio_input mock_backend_env both_input) = []"
    and f: "\<forall>s b. map_of both_input ''audio'' = Some (PStr s) \<and> b64decode s = Inr b \<longrightarrow>
              fst (process_audio_input mock_backend_env both_input) = Inr b"
    by blast+
  from f m decode_hi
  have "fst (process_audio_input mock_backend_env both_input) = Inr [104, 105]"
    by blast
  with a s show ?thesis by (simp add: prod_eq_iff)
qed

theorem decode_roundtrip_witness:
  "b64encode [104, 105] = ''aGk='' \<and>
   process_audio_input mock_backend_env [(''audio'', PStr ''aGk='')] = (Inr [104, 105], [])"
proof -
  have enc: "b64encode [104, 105] = ''aGk=''"
    by code_simp
  from decode_roundtrip[of "[104, 105]" mock_backend_env "[]"] enc
  show ?thesis by simp
qed

theorem audio_wrong_type_error_witness:
  "map_of number_input ''audio'' = Some (PInt 42) \<and>
   handler mock_backend_env (PDict (job_of number_input)) =
     (Inr [(''status'', PStr ''error''),
           (''error'', PStr ''Audio data must be base64 string or bytes'')], [])"
proof -
  have m: "map_of number_input ''audio'' = Some (PInt 42)"
    by (simp add: number_input_def)
  from audio_wrong_type_error[OF job_of_input m, of mock_backend_env] m
  show ?thesis by simp
qed

end
